theory Spec2Isabelle
  imports Main "HOL-Library.Word" "HOL-Library.AList"
begin

section \<open>Wallet metadata (src/wallet/meta/meta.go)\<close>

text \<open>
  \<^verbatim>\<open>type Meta map[string]string\<close> is a Go map: a value of the type is either nil or a
  reference to a map object, and the methods of \<open>Meta\<close> write through that reference.
  The embedding keeps the map objects in an explicit store, passes the store through every
  method and returns it updated; a method that panics returns \<open>Inl\<close>.
\<close>

subsection \<open>Go maps\<close>

text \<open>A map object is a finite table of entries; a lookup reads the first entry of a key.\<close>

type_synonym mapobj = "(string \<times> string) list"

datatype Meta = NilMeta | MetaRef nat

record heap =
  objs :: "nat \<Rightarrow> mapobj"
  next_ref :: nat

datatype NumError = ErrSyntax | ErrRange

datatype panic = NilMapAssign | PanicErr NumError

text \<open>\<^verbatim>\<open>mm := make(Meta, n)\<close>: a new, empty map object at an address not used before.\<close>

definition makemap :: "heap \<Rightarrow> heap \<times> Meta" where
  "makemap h =
     (h\<lparr>objs := (objs h)(next_ref h := []), next_ref := Suc (next_ref h)\<rparr>,
      MetaRef (next_ref h))"

text \<open>\<^verbatim>\<open>v, ok := m[k]\<close>: a nil map and a missing key both give the empty string and false.\<close>

definition mapaccess2 :: "heap \<Rightarrow> Meta \<Rightarrow> string \<Rightarrow> string \<times> bool" where
  "mapaccess2 h m k =
     (case m of
        NilMeta \<Rightarrow> ('''', False)
      | MetaRef a \<Rightarrow>
          (case map_of (objs h a) k of None \<Rightarrow> ('''', False) | Some v \<Rightarrow> (v, True)))"

text \<open>\<^verbatim>\<open>m[k]\<close> as an expression.\<close>

definition mapaccess1 :: "heap \<Rightarrow> Meta \<Rightarrow> string \<Rightarrow> string" where
  "mapaccess1 h m k = fst (mapaccess2 h m k)"

text \<open>\<^verbatim>\<open>m[k] = v\<close>: assignment to an entry of a nil map panics.\<close>

definition mapassign :: "heap \<Rightarrow> Meta \<Rightarrow> string \<Rightarrow> string \<Rightarrow> panic + heap" where
  "mapassign h m k v =
     (case m of
        NilMeta \<Rightarrow> Inl NilMapAssign
      | MetaRef a \<Rightarrow> Inr (h\<lparr>objs := (objs h)(a := AList.update k v (objs h a))\<rparr>))"

text \<open>
  \<^verbatim>\<open>for k, v := range m\<close> visits every key of the map once, with its value; ranging over a
  nil map visits nothing.
\<close>

definition maprange :: "heap \<Rightarrow> Meta \<Rightarrow> (string \<times> string) list" where
  "maprange h m = (case m of NilMeta \<Rightarrow> [] | MetaRef a \<Rightarrow> AList.clearjunk (objs h a))"

text \<open>Statement sequencing: a panic ends the method.\<close>

definition seq :: "panic + heap \<Rightarrow> (heap \<Rightarrow> panic + heap) \<Rightarrow> panic + heap" where
  "seq r f = (case r of Inl p \<Rightarrow> Inl p | Inr h \<Rightarrow> f h)"

subsection \<open>Package strconv, as called by meta.go\<close>

definition FormatBool :: "bool \<Rightarrow> string" where
  "FormatBool b = (if b then ''true'' else ''false'')"

definition ParseBool :: "string \<Rightarrow> bool \<times> NumError option" where
  "ParseBool str =
     (if str \<in> set [''1'', ''t'', ''T'', ''true'', ''TRUE'', ''True''] then (True, None)
      else if str \<in> set [''0'', ''f'', ''F'', ''false'', ''FALSE'', ''False''] then (False, None)
      else (False, Some ErrSyntax))"

definition digits :: string where
  "digits = ''0123456789''"

text \<open>The decimal digits of an unsigned value, most significant first.\<close>

fun formatBits :: "nat \<Rightarrow> string" where
  "formatBits u =
     (if u < 10 then [digits ! u] else formatBits (u div 10) @ [digits ! (u mod 10)])"

declare formatBits.simps [simp del]

text \<open>\<^verbatim>\<open>strconv.FormatUint(i, 10)\<close>\<close>

definition FormatUint :: "nat \<Rightarrow> string" where
  "FormatUint i = formatBits i"

text \<open>\<^verbatim>\<open>strconv.FormatInt(i, 10)\<close>: a minus sign, then the digits of the magnitude.\<close>

definition FormatInt :: "int \<Rightarrow> string" where
  "FormatInt i = (if i < 0 then CHR ''-'' # formatBits (nat (- i)) else formatBits (nat i))"

text \<open>\<open>maxUint64/10 + 1\<close>, the smallest \<open>n\<close> such that \<open>n * 10\<close> overflows a \<open>uint64\<close>.\<close>

definition cutoff10 :: nat where
  "cutoff10 = (2 ^ 64 - 1) div 10 + 1"

definition isDigit :: "char \<Rightarrow> bool" where
  "isDigit c = (48 \<le> (of_char c :: nat) \<and> (of_char c :: nat) \<le> 57)"

text \<open>
  The digit loop of \<^verbatim>\<open>strconv.ParseUint(s, 10, bitSize)\<close> on a \<open>uint64\<close> accumulator:
  in base 10 a letter is a digit value of at least 10 and so a syntax error like any other
  byte; a range error returns \<open>maxVal\<close>.
\<close>

fun ParseUint_loop :: "nat \<Rightarrow> nat \<Rightarrow> string \<Rightarrow> nat \<times> NumError option" where
  "ParseUint_loop maxVal n [] = (n, None)"
| "ParseUint_loop maxVal n (c # cs) =
     (if isDigit c then
        (let d = (of_char c :: nat) - 48 in
         if cutoff10 \<le> n then (maxVal, Some ErrRange)
         else
           (let n10 = (n * 10) mod 2 ^ 64; n1 = (n10 + d) mod 2 ^ 64 in
            if n1 < n10 \<or> maxVal < n1 then (maxVal, Some ErrRange)
            else ParseUint_loop maxVal n1 cs))
      else (0, Some ErrSyntax))"

definition ParseUint :: "string \<Rightarrow> nat \<Rightarrow> nat \<times> NumError option" where
  "ParseUint s bitSize =
     (if s = [] then (0, Some ErrSyntax) else ParseUint_loop (2 ^ bitSize - 1) 0 s)"

text \<open>
  \<^verbatim>\<open>strconv.ParseInt(s, 10, bitSize)\<close>: an optional sign, then \<open>ParseUint\<close>; a syntax
  error returns 0, a value out of range returns the nearest bound together with the range
  error.
\<close>

definition ParseInt :: "string \<Rightarrow> nat \<Rightarrow> int \<times> NumError option" where
  "ParseInt s0 bitSize =
     (case s0 of
        [] \<Rightarrow> (0, Some ErrSyntax)
      | c # cs \<Rightarrow>
          (let neg = (c = CHR ''-'');
               s = (if c = CHR ''+'' then cs else if c = CHR ''-'' then cs else s0);
               r = ParseUint s bitSize;
               un = fst r;
               cutoff = (2 :: nat) ^ (bitSize - 1)
           in
             if snd r = Some ErrSyntax then (0, Some ErrSyntax)
             else if (\<not> neg) \<and> cutoff \<le> un then (int cutoff - 1, Some ErrRange)
             else if neg \<and> cutoff < un then (- int cutoff, Some ErrRange)
             else (if neg then - int un else int un, None)))"

subsection \<open>Keys and coin types\<close>

definition MetaVersion :: string where "MetaVersion = ''version''"
definition MetaFilename :: string where "MetaFilename = ''filename''"
definition MetaLabel :: string where "MetaLabel = ''label''"
definition MetaTimestamp :: string where "MetaTimestamp = ''tm''"
definition MetaType :: string where "MetaType = ''type''"
definition MetaCoin :: string where "MetaCoin = ''coin''"
definition MetaEncrypted :: string where "MetaEncrypted = ''encrypted''"
definition MetaCryptoType :: string where "MetaCryptoType = ''cryptoType''"
definition MetaSeed :: string where "MetaSeed = ''seed''"
definition MetaLastSeed :: string where "MetaLastSeed = ''lastSeed''"
definition MetaSecrets :: string where "MetaSecrets = ''secrets''"
definition MetaBip44Coin :: string where "MetaBip44Coin = ''bip44Coin''"
definition MetaAccountsHash :: string where "MetaAccountsHash = ''accountsHash''"
definition MetaSeedPassphrase :: string where "MetaSeedPassphrase = ''seedPassphrase''"
definition MetaXPub :: string where "MetaXPub = ''xpub''"

type_synonym CoinType = string
type_synonym CryptoType = string

definition CoinTypeSkycoin :: CoinType where "CoinTypeSkycoin = ''skycoin''"
definition CoinTypeBitcoin :: CoinType where "CoinTypeBitcoin = ''bitcoin''"

subsection \<open>Methods of Meta\<close>

definition Find :: "heap \<Rightarrow> Meta \<Rightarrow> string \<Rightarrow> string" where
  "Find h m k = mapaccess1 h m k"

definition Type :: "heap \<Rightarrow> Meta \<Rightarrow> string" where
  "Type h m = mapaccess1 h m MetaType"

definition Version :: "heap \<Rightarrow> Meta \<Rightarrow> string" where
  "Version h m = mapaccess1 h m MetaVersion"

definition SetVersion :: "heap \<Rightarrow> Meta \<Rightarrow> string \<Rightarrow> panic + heap" where
  "SetVersion h m v = mapassign h m MetaVersion v"

definition Filename :: "heap \<Rightarrow> Meta \<Rightarrow> string" where
  "Filename h m = mapaccess1 h m MetaFilename"

definition SetFilename :: "heap \<Rightarrow> Meta \<Rightarrow> string \<Rightarrow> panic + heap" where
  "SetFilename h m fn = mapassign h m MetaFilename fn"

definition Label :: "heap \<Rightarrow> Meta \<Rightarrow> string" where
  "Label h m = mapaccess1 h m MetaLabel"

definition SetLabel :: "heap \<Rightarrow> Meta \<Rightarrow> string \<Rightarrow> panic + heap" where
  "SetLabel h m label = mapassign h m MetaLabel label"

definition LastSeed :: "heap \<Rightarrow> Meta \<Rightarrow> string" where
  "LastSeed h m = mapaccess1 h m MetaLastSeed"

definition SetLastSeed :: "heap \<Rightarrow> Meta \<Rightarrow> string \<Rightarrow> panic + heap" where
  "SetLastSeed h m lseed = mapassign h m MetaLastSeed lseed"

definition Seed :: "heap \<Rightarrow> Meta \<Rightarrow> string" where
  "Seed h m = mapaccess1 h m MetaSeed"

definition SetSeed :: "heap \<Rightarrow> Meta \<Rightarrow> string \<Rightarrow> panic + heap" where
  "SetSeed h m seed = mapassign h m MetaSeed seed"

definition SeedPassphrase :: "heap \<Rightarrow> Meta \<Rightarrow> string" where
  "SeedPassphrase h m = mapaccess1 h m MetaSeedPassphrase"

definition SetSeedPassphrase :: "heap \<Rightarrow> Meta \<Rightarrow> string \<Rightarrow> panic + heap" where
  "SetSeedPassphrase h m p = mapassign h m MetaSeedPassphrase p"

definition EraseSeeds :: "heap \<Rightarrow> Meta \<Rightarrow> panic + heap" where
  "EraseSeeds h m =
     seq (SetSeed h m '''') (\<lambda>h1.
     seq (SetLastSeed h1 m '''') (\<lambda>h2.
     SetSeedPassphrase h2 m ''''))"

definition Coin :: "heap \<Rightarrow> Meta \<Rightarrow> CoinType" where
  "Coin h m = mapaccess1 h m MetaCoin"

definition SetCoin :: "heap \<Rightarrow> Meta \<Rightarrow> CoinType \<Rightarrow> panic + heap" where
  "SetCoin h m ct = mapassign h m MetaCoin ct"

text \<open>\<open>bip44.CoinType\<close> is a \<open>uint32\<close>; the conversion from \<open>uint64\<close> truncates.\<close>

definition Bip44Coin :: "heap \<Rightarrow> Meta \<Rightarrow> panic + (32 word \<times> bool)" where
  "Bip44Coin h m =
     (case mapaccess2 h m MetaBip44Coin of
        (c, ok) \<Rightarrow>
          if ok then
            (case ParseUint c 32 of
               (x, Some err) \<Rightarrow> Inl (PanicErr err)
             | (x, None) \<Rightarrow> Inr (word_of_nat x, True))
          else Inr (0, False))"

definition SetBip44Coin :: "heap \<Rightarrow> Meta \<Rightarrow> 32 word \<Rightarrow> panic + heap" where
  "SetBip44Coin h m ct = mapassign h m MetaBip44Coin (FormatUint (unat ct))"

definition setIsEncrypted :: "heap \<Rightarrow> Meta \<Rightarrow> bool \<Rightarrow> panic + heap" where
  "setIsEncrypted h m encrypt = mapassign h m MetaEncrypted (FormatBool encrypt)"

definition setCryptoType :: "heap \<Rightarrow> Meta \<Rightarrow> CryptoType \<Rightarrow> panic + heap" where
  "setCryptoType h m tp = mapassign h m MetaCryptoType tp"

definition CryptoType :: "heap \<Rightarrow> Meta \<Rightarrow> CryptoType" where
  "CryptoType h m = mapaccess1 h m MetaCryptoType"

definition Secrets :: "heap \<Rightarrow> Meta \<Rightarrow> string" where
  "Secrets h m = mapaccess1 h m MetaSecrets"

definition setSecrets :: "heap \<Rightarrow> Meta \<Rightarrow> string \<Rightarrow> panic + heap" where
  "setSecrets h m s = mapassign h m MetaSecrets s"

definition SetEncrypted :: "heap \<Rightarrow> Meta \<Rightarrow> CryptoType \<Rightarrow> string \<Rightarrow> panic + heap" where
  "SetEncrypted h m cryptoType encryptedSecrets =
     seq (setCryptoType h m cryptoType) (\<lambda>h1.
     seq (setSecrets h1 m encryptedSecrets) (\<lambda>h2.
     setIsEncrypted h2 m True))"

definition SetDecrypted :: "heap \<Rightarrow> Meta \<Rightarrow> panic + heap" where
  "SetDecrypted h m =
     seq (setIsEncrypted h m False) (\<lambda>h1.
     seq (setSecrets h1 m '''') (\<lambda>h2.
     setCryptoType h2 m ''''))"

definition IsEncrypted :: "heap \<Rightarrow> Meta \<Rightarrow> panic + bool" where
  "IsEncrypted h m =
     (case mapaccess2 h m MetaEncrypted of
        (encStr, ok) \<Rightarrow>
          if ok then
            (case ParseBool encStr of
               (b, Some err) \<Rightarrow> Inl (PanicErr err)
             | (b, None) \<Rightarrow> Inr b)
          else Inr False)"

text \<open>The parse error is dropped and the value \<open>ParseInt\<close> returned with it is used.\<close>

definition Timestamp :: "heap \<Rightarrow> Meta \<Rightarrow> 64 word" where
  "Timestamp h m = word_of_int (fst (ParseInt (mapaccess1 h m MetaTimestamp) 64))"

definition SetTimestamp :: "heap \<Rightarrow> Meta \<Rightarrow> 64 word \<Rightarrow> panic + heap" where
  "SetTimestamp h m t = mapassign h m MetaTimestamp (FormatInt (sint t))"

definition SetXPub :: "heap \<Rightarrow> Meta \<Rightarrow> string \<Rightarrow> panic + heap" where
  "SetXPub h m xpub = mapassign h m MetaXPub xpub"

definition XPub :: "heap \<Rightarrow> Meta \<Rightarrow> string" where
  "XPub h m = mapaccess1 h m MetaXPub"

text \<open>\<^verbatim>\<open>delete(m, k)\<close>; deleting from a nil map does nothing.\<close>

definition mapdelete :: "heap \<Rightarrow> Meta \<Rightarrow> string \<Rightarrow> heap" where
  "mapdelete h m k =
     (case m of
        NilMeta \<Rightarrow> h
      | MetaRef a \<Rightarrow> h\<lparr>objs := (objs h)(a := AList.delete k (objs h a))\<rparr>)"

text \<open>
  \<^verbatim>\<open>for k, v := range m { mm[k] = v }\<close>, over the entries that the range yields. The
  loop writes to \<open>mm\<close> only, so the entries of \<open>m\<close> are those at the start of the loop.
\<close>

fun Clone_loop :: "(string \<times> string) list \<Rightarrow> heap \<Rightarrow> Meta \<Rightarrow> panic + heap" where
  "Clone_loop [] h mm = Inr h"
| "Clone_loop ((k, v) # es) h mm =
     (case mapassign h mm k v of Inl p \<Rightarrow> Inl p | Inr h' \<Rightarrow> Clone_loop es h' mm)"

definition Clone :: "heap \<Rightarrow> Meta \<Rightarrow> panic + (heap \<times> Meta)" where
  "Clone h m =
     (case makemap h of
        (h1, mm) \<Rightarrow>
          (case Clone_loop (maprange h1 m) h1 mm of
             Inl p \<Rightarrow> Inl p
           | Inr h2 \<Rightarrow> Inr (h2, mm)))"

subsection \<open>Coin type resolution\<close>

text \<open>
  \<^verbatim>\<open>strings.ToLower\<close>: a string of ASCII bytes only has its letters \<open>A\<close> to \<open>Z\<close>
  moved to lower case byte by byte. Any other string is mapped rune by rune through the
  Unicode tables of the Go library, which the parameter \<open>mapUnicode\<close> stands for.
\<close>

definition isASCII :: "string \<Rightarrow> bool" where
  "isASCII s = list_all (\<lambda>c. (of_char c :: nat) < 128) s"

definition isUpper :: "char \<Rightarrow> bool" where
  "isUpper c = (65 \<le> (of_char c :: nat) \<and> (of_char c :: nat) \<le> 90)"

definition ToLower :: "(string \<Rightarrow> string) \<Rightarrow> string \<Rightarrow> string" where
  "ToLower mapUnicode s =
     (if isASCII s then
        (if list_ex isUpper s
         then map (\<lambda>c. if isUpper c then char_of ((of_char c :: nat) + 32) else c) s
         else s)
      else mapUnicode s)"

text \<open>\<^verbatim>\<open>errors.New(text)\<close>\<close>

datatype error = errorString string

definition ResolveCoinType :: "(string \<Rightarrow> string) \<Rightarrow> string \<Rightarrow> CoinType \<times> error option" where
  "ResolveCoinType mapUnicode s =
     (let l = ToLower mapUnicode s in
      if l \<in> set [''sky'', ''skycoin''] then (CoinTypeSkycoin, None)
      else if l \<in> set [''btc'', ''bitcoin''] then (CoinTypeBitcoin, None)
      else ('''', Some (errorString ''invalid coin type'')))"

subsection \<open>Mutations of a record\<close>

text \<open>
  Everything that can change a \<open>Meta\<close>: the exported setters and compound operations,
  and the two statements Go has for a map, assignment to a key and \<open>delete\<close>.
\<close>

datatype mutation =
    CallSetVersion string
  | CallSetFilename string
  | CallSetLabel string
  | CallSetLastSeed string
  | CallSetSeed string
  | CallSetSeedPassphrase string
  | CallEraseSeeds
  | CallSetCoin CoinType
  | CallSetBip44Coin "32 word"
  | CallSetEncrypted CryptoType string
  | CallSetDecrypted
  | CallSetTimestamp "64 word"
  | CallSetXPub string
  | Assign string string
  | Delete string

fun mutate :: "heap \<Rightarrow> Meta \<Rightarrow> mutation \<Rightarrow> panic + heap" where
  "mutate h m (CallSetVersion v) = SetVersion h m v"
| "mutate h m (CallSetFilename fn) = SetFilename h m fn"
| "mutate h m (CallSetLabel label) = SetLabel h m label"
| "mutate h m (CallSetLastSeed lseed) = SetLastSeed h m lseed"
| "mutate h m (CallSetSeed seed) = SetSeed h m seed"
| "mutate h m (CallSetSeedPassphrase p) = SetSeedPassphrase h m p"
| "mutate h m CallEraseSeeds = EraseSeeds h m"
| "mutate h m (CallSetCoin ct) = SetCoin h m ct"
| "mutate h m (CallSetBip44Coin ct) = SetBip44Coin h m ct"
| "mutate h m (CallSetEncrypted tp s) = SetEncrypted h m tp s"
| "mutate h m CallSetDecrypted = SetDecrypted h m"
| "mutate h m (CallSetTimestamp t) = SetTimestamp h m t"
| "mutate h m (CallSetXPub xpub) = SetXPub h m xpub"
| "mutate h m (Assign k v) = mapassign h m k v"
| "mutate h m (Delete k) = Inr (mapdelete h m k)"

fun mutate_all :: "heap \<Rightarrow> Meta \<Rightarrow> mutation list \<Rightarrow> panic + heap" where
  "mutate_all h m [] = Inr h"
| "mutate_all h m (c # cs) =
     (case mutate h m c of Inl p \<Rightarrow> Inl p | Inr h' \<Rightarrow> mutate_all h' m cs)"

text \<open>\<^verbatim>\<open>Meta{}\<close>, a freshly constructed empty record.\<close>

definition emptyMeta :: "heap \<Rightarrow> heap \<times> Meta" where
  "emptyMeta h = makemap h"

subsection \<open>Example records\<close>

text \<open>A store with one empty record at address 0.\<close>

definition heap_empty :: heap where
  "heap_empty = \<lparr>objs = (\<lambda>a. []), next_ref = 1\<rparr>"

text \<open>A store with one populated record at address 0.\<close>

definition heap_wallet :: heap where
  "heap_wallet =
     \<lparr>objs = (\<lambda>a. [])(0 := [(''coin'', ''bitcoin''), (''seed'', ''abandon''),
                              (''lastSeed'', ''abc''), (''secrets'', ''blob''),
                              (''cryptoType'', ''scrypt-chacha20poly1305'')]),
      next_ref = 1\<rparr>"

text \<open>Records whose typed fields hold strings that no setter writes.\<close>

definition heap_malformed :: heap where
  "heap_malformed =
     \<lparr>objs = (\<lambda>a. [])(0 := [(''encrypted'', ''yes''), (''bip44Coin'', ''4294967296'')]),
      next_ref = 1\<rparr>"

definition heap_late :: heap where
  "heap_late =
     \<lparr>objs = (\<lambda>a. [])(0 := [(''tm'', ''9223372036854775808'')]), next_ref = 1\<rparr>"

section \<open>Properties\<close>

subsection \<open>Elementary facts about the store\<close>

lemmas Meta_keys =
  MetaVersion_def MetaFilename_def MetaLabel_def MetaTimestamp_def MetaType_def
  MetaCoin_def MetaEncrypted_def MetaCryptoType_def MetaSeed_def MetaLastSeed_def
  MetaSecrets_def MetaBip44Coin_def MetaAccountsHash_def MetaSeedPassphrase_def
  MetaXPub_def

lemma seq_Inr: "seq (Inr h) f = f h"
  by (simp add: seq_def)

lemma seq_Inl: "seq (Inl p) f = Inl p"
  by (simp add: seq_def)

lemma mapassign_ref:
  "mapassign h (MetaRef a) k v =
     Inr (h\<lparr>objs := (objs h)(a := AList.update k v (objs h a))\<rparr>)"
  by (simp add: mapassign_def)

lemma mapassign_nil: "mapassign h NilMeta k v = Inl NilMapAssign"
  by (simp add: mapassign_def)

lemma mapaccess2_ref:
  "mapaccess2 h (MetaRef a) k =
     (case map_of (objs h a) k of None \<Rightarrow> ('''', False) | Some v \<Rightarrow> (v, True))"
  by (simp add: mapaccess2_def)

lemma mapaccess2_nil: "mapaccess2 h NilMeta k = ('''', False)"
  by (simp add: mapaccess2_def)

text \<open>The compound operations on an allocated record, as one update of its object.\<close>

lemma SetEncrypted_ref:
  "SetEncrypted h (MetaRef a) A B =
     Inr (h\<lparr>objs := (objs h)(a := AList.update MetaEncrypted ''true''
            (AList.update MetaSecrets B (AList.update MetaCryptoType A (objs h a))))\<rparr>)"
  by (simp add: SetEncrypted_def setCryptoType_def setSecrets_def setIsEncrypted_def
      mapassign_ref seq_Inr FormatBool_def)

lemma SetDecrypted_ref:
  "SetDecrypted h (MetaRef a) =
     Inr (h\<lparr>objs := (objs h)(a := AList.update MetaCryptoType ''''
            (AList.update MetaSecrets '''' (AList.update MetaEncrypted ''false'' (objs h a))))\<rparr>)"
  by (simp add: SetDecrypted_def setCryptoType_def setSecrets_def setIsEncrypted_def
      mapassign_ref seq_Inr FormatBool_def)

lemma EraseSeeds_ref:
  "EraseSeeds h (MetaRef a) =
     Inr (h\<lparr>objs := (objs h)(a := AList.update MetaSeedPassphrase ''''
            (AList.update MetaLastSeed '''' (AList.update MetaSeed '''' (objs h a))))\<rparr>)"
  by (simp add: EraseSeeds_def SetSeed_def SetLastSeed_def SetSeedPassphrase_def
      mapassign_ref seq_Inr)

lemma update3_again:
  "k1 \<noteq> k2 \<Longrightarrow> k1 \<noteq> k3 \<Longrightarrow> k2 \<noteq> k3 \<Longrightarrow>
   AList.update k3 v3 (AList.update k2 v2 (AList.update k1 v1
     (AList.update k3 v3 (AList.update k2 v2 (AList.update k1 v1 al))))) =
   AList.update k3 v3 (AList.update k2 v2 (AList.update k1 v1 al))"
  by (simp add: update_triv update_conv')

text \<open>On a nil record the setters and compound operations panic.\<close>

lemma writes_to_nil_panic:
  "SetSeed h NilMeta s = Inl NilMapAssign"
  "SetCoin h NilMeta ct = Inl NilMapAssign"
  "SetTimestamp h NilMeta t = Inl NilMapAssign"
  "SetBip44Coin h NilMeta b = Inl NilMapAssign"
  "EraseSeeds h NilMeta = Inl NilMapAssign"
  "SetEncrypted h NilMeta A B = Inl NilMapAssign"
  "SetDecrypted h NilMeta = Inl NilMapAssign"
  by (simp_all add: SetSeed_def SetCoin_def SetTimestamp_def SetBip44Coin_def EraseSeeds_def
      SetEncrypted_def SetDecrypted_def setCryptoType_def setIsEncrypted_def mapassign_nil seq_Inl)

subsection \<open>Encryption state (C1, C2, C7)\<close>

text \<open>
  C1. Encryption round-trip: for every algorithm identifier \<open>A\<close> and every blob \<open>B\<close>,
  \<open>SetEncrypted(A, B)\<close> on a record returns, and afterwards \<open>IsEncrypted()\<close> is true,
  \<open>CryptoType()\<close> is \<open>A\<close> and \<open>Secrets()\<close> is \<open>B\<close>; a following \<open>SetDecrypted()\<close>
  returns, and afterwards \<open>IsEncrypted()\<close> is false and \<open>CryptoType()\<close> and
  \<open>Secrets()\<close> are the empty string. The record is any allocated map, in any store.
\<close>

theorem encryption_round_trip:
  "\<exists>h1 h2.
     SetEncrypted h (MetaRef a) A B = Inr h1 \<and>
     IsEncrypted h1 (MetaRef a) = Inr True \<and>
     CryptoType h1 (MetaRef a) = A \<and>
     Secrets h1 (MetaRef a) = B \<and>
     SetDecrypted h1 (MetaRef a) = Inr h2 \<and>
     IsEncrypted h2 (MetaRef a) = Inr False \<and>
     CryptoType h2 (MetaRef a) = '''' \<and>
     Secrets h2 (MetaRef a) = ''''"
  by (simp add: SetEncrypted_ref SetDecrypted_ref IsEncrypted_def CryptoType_def Secrets_def
      mapaccess1_def mapaccess2_ref update_conv' Meta_keys ParseBool_def)

theorem encryption_round_trip_witness:
  "\<exists>h1 h2.
     SetEncrypted heap_wallet (MetaRef 0) ''scrypt-chacha20poly1305'' ''blob2'' = Inr h1 \<and>
     IsEncrypted h1 (MetaRef 0) = Inr True \<and>
     CryptoType h1 (MetaRef 0) = ''scrypt-chacha20poly1305'' \<and>
     Secrets h1 (MetaRef 0) = ''blob2'' \<and>
     SetDecrypted h1 (MetaRef 0) = Inr h2 \<and>
     IsEncrypted h2 (MetaRef 0) = Inr False \<and>
     CryptoType h2 (MetaRef 0) = '''' \<and>
     Secrets h2 (MetaRef 0) = ''''"
  by (rule encryption_round_trip)

text \<open>
  C2. Fail-fast on malformed typed fields: when the \<open>encrypted\<close> key holds a string that
  \<open>ParseBool\<close> rejects, \<open>IsEncrypted()\<close> panics with the parse error; when the
  \<open>bip44Coin\<close> key holds a string that \<open>ParseUint(_, 10, 32)\<close> rejects, \<open>Bip44Coin()\<close>
  panics with the parse error. Neither returns a value.
\<close>

theorem malformed_field_panics:
  "(mapaccess2 h m MetaEncrypted = (encStr, True) \<and> snd (ParseBool encStr) = Some err
      \<longrightarrow> IsEncrypted h m = Inl (PanicErr err)) \<and>
   (mapaccess2 h m MetaBip44Coin = (c, True) \<and> snd (ParseUint c 32) = Some err'
      \<longrightarrow> Bip44Coin h m = Inl (PanicErr err'))"
  by (auto simp add: IsEncrypted_def Bip44Coin_def split: prod.splits option.splits)

theorem malformed_field_panics_witness:
  "mapaccess2 heap_malformed (MetaRef 0) MetaEncrypted = (''yes'', True) \<and>
   snd (ParseBool ''yes'') = Some ErrSyntax \<and>
   IsEncrypted heap_malformed (MetaRef 0) = Inl (PanicErr ErrSyntax) \<and>
   mapaccess2 heap_malformed (MetaRef 0) MetaBip44Coin = (''4294967296'', True) \<and>
   snd (ParseUint ''4294967296'' 32) = Some ErrRange \<and>
   Bip44Coin heap_malformed (MetaRef 0) = Inl (PanicErr ErrRange)"
proof -
  have e: "mapaccess2 heap_malformed (MetaRef 0) MetaEncrypted = (''yes'', True)"
    by (simp add: mapaccess2_ref heap_malformed_def Meta_keys)
  have pe: "snd (ParseBool ''yes'') = Some ErrSyntax"
    by (simp add: ParseBool_def)
  have b: "mapaccess2 heap_malformed (MetaRef 0) MetaBip44Coin = (''4294967296'', True)"
    by (simp add: mapaccess2_ref heap_malformed_def Meta_keys)
  have pb: "snd (ParseUint ''4294967296'' 32) = Some ErrRange"
    by (simp add: ParseUint_def isDigit_def cutoff10_def Let_def)
  from e pe b pb
    malformed_field_panics [of heap_malformed "MetaRef 0" "''yes''" ErrSyntax "''4294967296''" ErrRange]
  show ?thesis by simp
qed

text \<open>
  C7. Default encryption flag: on every record in which the \<open>encrypted\<close> key is absent,
  \<open>IsEncrypted()\<close> returns false and does not panic; in particular on a freshly
  constructed empty record.
\<close>

theorem IsEncrypted_default:
  "(snd (mapaccess2 h m MetaEncrypted) = False \<longrightarrow> IsEncrypted h m = Inr False) \<and>
   IsEncrypted (fst (emptyMeta h)) (snd (emptyMeta h)) = Inr False"
  by (auto simp add: IsEncrypted_def emptyMeta_def makemap_def mapaccess2_ref split: prod.splits)

theorem IsEncrypted_default_witness:
  "snd (mapaccess2 heap_wallet (MetaRef 0) MetaEncrypted) = False \<and>
   IsEncrypted heap_wallet (MetaRef 0) = Inr False \<and>
   IsEncrypted (fst (emptyMeta heap_wallet)) (snd (emptyMeta heap_wallet)) = Inr False"
proof -
  have absent: "snd (mapaccess2 heap_wallet (MetaRef 0) MetaEncrypted) = False"
    by (simp add: mapaccess2_ref heap_wallet_def Meta_keys)
  with IsEncrypted_default [of heap_wallet "MetaRef 0"] show ?thesis by simp
qed

subsection \<open>Seeds and coin type (C5, C10, C3)\<close>

text \<open>
  C5. \<open>EraseSeeds()\<close> on a record returns and sets each of \<open>seed\<close>, \<open>lastSeed\<close> and
  \<open>seedPassphrase\<close> to the empty string; every other key keeps its value and its
  presence, in particular \<open>secrets\<close> and \<open>cryptoType\<close>; erasing again gives the same
  store; and after erasure \<open>Seed()\<close>, \<open>LastSeed()\<close> and \<open>SeedPassphrase()\<close> return
  the empty string.
\<close>

theorem EraseSeeds_effect:
  "\<exists>h1.
     EraseSeeds h (MetaRef a) = Inr h1 \<and>
     mapaccess2 h1 (MetaRef a) MetaSeed = ('''', True) \<and>
     mapaccess2 h1 (MetaRef a) MetaLastSeed = ('''', True) \<and>
     mapaccess2 h1 (MetaRef a) MetaSeedPassphrase = ('''', True) \<and>
     (\<forall>k. k \<notin> {MetaSeed, MetaLastSeed, MetaSeedPassphrase} \<longrightarrow>
          mapaccess2 h1 (MetaRef a) k = mapaccess2 h (MetaRef a) k) \<and>
     Secrets h1 (MetaRef a) = Secrets h (MetaRef a) \<and>
     CryptoType h1 (MetaRef a) = CryptoType h (MetaRef a) \<and>
     EraseSeeds h1 (MetaRef a) = Inr h1 \<and>
     Seed h1 (MetaRef a) = '''' \<and>
     LastSeed h1 (MetaRef a) = '''' \<and>
     SeedPassphrase h1 (MetaRef a) = ''''"
  by (simp add: EraseSeeds_ref update3_again mapaccess2_ref update_conv' Secrets_def
      CryptoType_def Seed_def LastSeed_def SeedPassphrase_def mapaccess1_def Meta_keys)

theorem EraseSeeds_effect_witness:
  "MetaCoin \<notin> {MetaSeed, MetaLastSeed, MetaSeedPassphrase} \<and>
   (\<exists>h1. EraseSeeds heap_wallet (MetaRef 0) = Inr h1 \<and>
         Seed h1 (MetaRef 0) = '''' \<and>
         mapaccess2 h1 (MetaRef 0) MetaCoin = (''bitcoin'', True) \<and>
         Secrets h1 (MetaRef 0) = ''blob'' \<and>
         EraseSeeds h1 (MetaRef 0) = Inr h1)"
proof -
  have other: "MetaCoin \<notin> {MetaSeed, MetaLastSeed, MetaSeedPassphrase}"
    by (simp add: Meta_keys)
  have coin: "mapaccess2 heap_wallet (MetaRef 0) MetaCoin = (''bitcoin'', True)"
    by (simp add: mapaccess2_ref heap_wallet_def Meta_keys)
  have secrets: "Secrets heap_wallet (MetaRef 0) = ''blob''"
    by (simp add: Secrets_def mapaccess1_def mapaccess2_ref heap_wallet_def Meta_keys)
  from EraseSeeds_effect [of heap_wallet 0] obtain h1 where
    h1: "EraseSeeds heap_wallet (MetaRef 0) = Inr h1" "Seed h1 (MetaRef 0) = ''''"
      "\<forall>k. k \<notin> {MetaSeed, MetaLastSeed, MetaSeedPassphrase} \<longrightarrow>
          mapaccess2 h1 (MetaRef 0) k = mapaccess2 heap_wallet (MetaRef 0) k"
      "Secrets h1 (MetaRef 0) = Secrets heap_wallet (MetaRef 0)"
      "EraseSeeds h1 (MetaRef 0) = Inr h1"
    by blast
  from h1(3) other have "mapaccess2 h1 (MetaRef 0) MetaCoin = mapaccess2 heap_wallet (MetaRef 0) MetaCoin"
    by blast
  with other coin secrets h1 show ?thesis by simp
qed

text \<open>
  C10. \<open>SetCoin(CoinType(s))\<close> followed by \<open>Coin()\<close> returns \<open>s\<close> as it was given, for
  every string \<open>s\<close>: neither method validates or normalises the value.
\<close>

theorem SetCoin_Coin_verbatim:
  "\<exists>h1. SetCoin h (MetaRef a) s = Inr h1 \<and> Coin h1 (MetaRef a) = s"
  by (simp add: SetCoin_def Coin_def mapassign_ref mapaccess1_def mapaccess2_ref update_conv')

theorem SetCoin_Coin_verbatim_witness:
  "\<exists>h1. SetCoin heap_wallet (MetaRef 0) ''eth'' = Inr h1 \<and> Coin h1 (MetaRef 0) = ''eth''"
  by (rule SetCoin_Coin_verbatim)

text \<open>
  C3. Coin type resolution: an input whose lower-casing is \<open>sky\<close> or \<open>skycoin\<close> resolves
  to \<open>CoinTypeSkycoin\<close> with no error, one whose lower-casing is \<open>btc\<close> or \<open>bitcoin\<close>
  to \<open>CoinTypeBitcoin\<close> with no error, and every other input fails with the error
  \<open>invalid coin type\<close>. This holds whatever the Unicode mapping of the library does on
  strings that are not ASCII.
\<close>

theorem ResolveCoinType_cases:
  "(ToLower mapUnicode s \<in> {''sky'', ''skycoin''} \<longrightarrow>
      ResolveCoinType mapUnicode s = (CoinTypeSkycoin, None)) \<and>
   (ToLower mapUnicode s \<in> {''btc'', ''bitcoin''} \<longrightarrow>
      ResolveCoinType mapUnicode s = (CoinTypeBitcoin, None)) \<and>
   (ToLower mapUnicode s \<notin> {''sky'', ''skycoin'', ''btc'', ''bitcoin''} \<longrightarrow>
      ResolveCoinType mapUnicode s = ('''', Some (errorString ''invalid coin type'')))"
  by (auto simp add: ResolveCoinType_def Let_def)

lemma ToLower_examples:
  "ToLower f ''SKY'' = ''sky''"
  "ToLower f ''Sky'' = ''sky''"
  "ToLower f ''skycoin'' = ''skycoin''"
  "ToLower f ''BitCoin'' = ''bitcoin''"
  "ToLower f ''bTc'' = ''btc''"
  "ToLower f ''eth'' = ''eth''"
  by (simp_all add: ToLower_def isASCII_def isUpper_def char_of_eq_iff)

theorem ResolveCoinType_cases_witness:
  "ResolveCoinType id ''SKY'' = (CoinTypeSkycoin, None) \<and>
   ResolveCoinType id ''Sky'' = (CoinTypeSkycoin, None) \<and>
   ResolveCoinType id ''skycoin'' = (CoinTypeSkycoin, None) \<and>
   ResolveCoinType id ''BitCoin'' = (CoinTypeBitcoin, None) \<and>
   ResolveCoinType id ''bTc'' = (CoinTypeBitcoin, None) \<and>
   ResolveCoinType id ''eth'' = ('''', Some (errorString ''invalid coin type''))"
proof -
  have sky1: "ResolveCoinType id ''SKY'' = (CoinTypeSkycoin, None)"
    using ResolveCoinType_cases [of id "''SKY''"] by (simp add: ToLower_examples)
  have sky2: "ResolveCoinType id ''Sky'' = (CoinTypeSkycoin, None)"
    using ResolveCoinType_cases [of id "''Sky''"] by (simp add: ToLower_examples)
  have sky3: "ResolveCoinType id ''skycoin'' = (CoinTypeSkycoin, None)"
    using ResolveCoinType_cases [of id "''skycoin''"] by (simp add: ToLower_examples)
  have btc1: "ResolveCoinType id ''BitCoin'' = (CoinTypeBitcoin, None)"
    using ResolveCoinType_cases [of id "''BitCoin''"] by (simp add: ToLower_examples)
  have btc2: "ResolveCoinType id ''bTc'' = (CoinTypeBitcoin, None)"
    using ResolveCoinType_cases [of id "''bTc''"] by (simp add: ToLower_examples)
  have eth: "ResolveCoinType id ''eth'' = ([], Some (errorString ''invalid coin type''))"
    using ResolveCoinType_cases [of id "''eth''"] by (simp add: ToLower_examples)
  from sky1 sky2 sky3 btc1 btc2 eth show ?thesis by simp
qed

subsection \<open>Decimal strings: what is formatted parses back\<close>

lemma digits_nth:
  assumes "d < 10"
  shows "isDigit (digits ! d) \<and> (of_char (digits ! d) :: nat) - 48 = d"
proof -
  from assms have "d \<in> {0, 1, 2, 3, 4, 5, 6, 7, 8, 9}" by auto
  then show ?thesis
    by (auto simp add: digits_def isDigit_def)
qed

lemma digits_nth_no_sign:
  assumes "d < 10"
  shows "digits ! d \<noteq> CHR ''+'' \<and> digits ! d \<noteq> CHR ''-''"
proof -
  from assms have "d \<in> {0, 1, 2, 3, 4, 5, 6, 7, 8, 9}" by auto
  then show ?thesis
    by (auto simp add: digits_def)
qed

lemma ParseUint_loop_digit:
  assumes "d < 10" and "n * 10 + d \<le> M" and "M < 2 ^ 64"
  shows "ParseUint_loop M n (digits ! d # cs) = ParseUint_loop M (n * 10 + d) cs"
proof -
  from assms have small: "n * 10 + d < 2 ^ 64" by simp
  then have n10: "n * 10 < 2 ^ 64" by simp
  from small have "n < cutoff10" by (simp add: cutoff10_def)
  with assms small n10 show ?thesis
    by (simp add: digits_nth Let_def)
qed

lemma ParseUint_loop_formatBits:
  "u \<le> M \<Longrightarrow> M < 2 ^ 64 \<Longrightarrow>
   ParseUint_loop M 0 (formatBits u @ cs) = ParseUint_loop M u cs"
proof (induction u arbitrary: cs rule: formatBits.induct)
  case (1 u)
  show ?case
  proof (cases "u < 10")
    case True
    with "1.prems" show ?thesis
      using ParseUint_loop_digit [of u 0 M cs] by (simp add: formatBits.simps)
  next
    case False
    have d: "u mod 10 < 10" by simp
    have le: "u div 10 \<le> M" using "1.prems" by simp
    have "ParseUint_loop M 0 (formatBits u @ cs) =
          ParseUint_loop M 0 (formatBits (u div 10) @ (digits ! (u mod 10) # cs))"
      using False by (subst formatBits.simps) simp
    also have "\<dots> = ParseUint_loop M (u div 10) (digits ! (u mod 10) # cs)"
      using "1.IH" [OF False le "1.prems"(2)] .
    also have "\<dots> = ParseUint_loop M (u div 10 * 10 + u mod 10) cs"
      using "1.prems" by (intro ParseUint_loop_digit [OF d]) simp_all
    finally show ?thesis by simp
  qed
qed

lemma formatBits_nonempty: "formatBits u \<noteq> []"
  by (subst formatBits.simps) simp

lemma formatBits_hd: "\<exists>d cs. d < 10 \<and> formatBits u = digits ! d # cs"
proof (induction u rule: formatBits.induct)
  case (1 u)
  show ?case
  proof (cases "u < 10")
    case True
    then show ?thesis by (subst formatBits.simps) auto
  next
    case False
    with 1 obtain d cs where "d < 10" "formatBits (u div 10) = digits ! d # cs" by blast
    with False show ?thesis by (subst formatBits.simps) auto
  qed
qed

lemma ParseUint_FormatUint:
  assumes "u < 2 ^ bitSize" and "bitSize \<le> 64"
  shows "ParseUint (FormatUint u) bitSize = (u, None)"
proof -
  have "(2::nat) ^ bitSize \<le> 2 ^ 64" by (rule power_increasing [OF assms(2)]) simp
  then have M: "(2::nat) ^ bitSize - 1 < 2 ^ 64" by simp
  have u: "u \<le> 2 ^ bitSize - 1" using assms(1) by simp
  have "ParseUint_loop (2 ^ bitSize - 1) 0 (formatBits u @ []) =
        ParseUint_loop (2 ^ bitSize - 1) u []"
    by (rule ParseUint_loop_formatBits [OF u M])
  then show ?thesis
    by (simp add: ParseUint_def FormatUint_def formatBits_nonempty)
qed

lemma ParseInt_FormatInt:
  assumes "- (2 ^ 63) \<le> i" and "i < 2 ^ 63"
  shows "ParseInt (FormatInt i) 64 = (i, None)"
proof (cases "i < 0")
  case True
  have le: "nat (- i) \<le> 2 ^ 63" using assms(1) by simp
  then have "nat (- i) < 2 ^ 64" by simp
  then have "ParseUint (FormatUint (nat (- i))) 64 = (nat (- i), None)"
    by (intro ParseUint_FormatUint) simp_all
  with True le show ?thesis
    by (simp add: ParseInt_def FormatInt_def FormatUint_def Let_def)
next
  case False
  obtain d cs where d: "d < 10" "formatBits (nat i) = digits ! d # cs"
    using formatBits_hd by blast
  have lt: "nat i < 2 ^ 63" using assms(2) False by simp
  then have "nat i < 2 ^ 64" by simp
  then have "ParseUint (FormatUint (nat i)) 64 = (nat i, None)"
    by (intro ParseUint_FormatUint) simp_all
  with False lt d digits_nth_no_sign [OF d(1)] show ?thesis
    by (simp add: ParseInt_def FormatInt_def FormatUint_def Let_def)
qed

text \<open>A syntax error always comes with the value 0.\<close>

lemma ParseInt_syntax_zero: "snd (ParseInt s bitSize) = Some ErrSyntax \<Longrightarrow> fst (ParseInt s bitSize) = 0"
  by (auto simp add: ParseInt_def Let_def split: list.splits if_splits)

lemma ParseInt_empty: "ParseInt [] bitSize = (0, Some ErrSyntax)"
  by (simp add: ParseInt_def)

subsection \<open>BIP-44 coin index (C6)\<close>

text \<open>
  C6. Bip44 presence distinction: on a record whose \<open>bip44Coin\<close> key is unset,
  \<open>Bip44Coin()\<close> reports absence (value 0, flag false); after \<open>SetBip44Coin(0)\<close> it
  reports presence with value 0 (flag true), and the two results differ. More generally
  the index written by \<open>SetBip44Coin\<close> is the one read back, with the flag true.
\<close>

theorem Bip44Coin_presence:
  "(snd (mapaccess2 h m MetaBip44Coin) = False \<longrightarrow> Bip44Coin h m = Inr (0, False)) \<and>
   (\<exists>h1. SetBip44Coin h (MetaRef a) 0 = Inr h1 \<and> Bip44Coin h1 (MetaRef a) = Inr (0, True)) \<and>
   (\<exists>h1. SetBip44Coin h (MetaRef a) ct = Inr h1 \<and> Bip44Coin h1 (MetaRef a) = Inr (ct, True)) \<and>
   (Inr (0, False) :: panic + (32 word \<times> bool)) \<noteq> Inr (0, True)"
proof -
  have absent: "snd (mapaccess2 h m MetaBip44Coin) = False \<longrightarrow> Bip44Coin h m = Inr (0, False)"
    by (auto simp add: Bip44Coin_def split: prod.splits)
  have readback: "\<exists>h1. SetBip44Coin h (MetaRef a) x = Inr h1 \<and> Bip44Coin h1 (MetaRef a) = Inr (x, True)"
    for x :: "32 word"
  proof -
    have "unat x < 2 ^ 32" using unsigned_less [of x] by simp
    then have "ParseUint (FormatUint (unat x)) 32 = (unat x, None)"
      by (intro ParseUint_FormatUint) simp_all
    then show ?thesis
      by (simp add: SetBip44Coin_def Bip44Coin_def mapassign_ref mapaccess2_ref update_conv')
  qed
  from absent readback [of 0] readback [of ct] show ?thesis by simp
qed

theorem Bip44Coin_presence_witness:
  "snd (mapaccess2 heap_wallet (MetaRef 0) MetaBip44Coin) = False \<and>
   Bip44Coin heap_wallet (MetaRef 0) = Inr (0, False) \<and>
   (\<exists>h1. SetBip44Coin heap_wallet (MetaRef 0) 0 = Inr h1 \<and>
         Bip44Coin h1 (MetaRef 0) = Inr (0, True))"
proof -
  have unset: "snd (mapaccess2 heap_wallet (MetaRef 0) MetaBip44Coin) = False"
    by (simp add: mapaccess2_ref heap_wallet_def Meta_keys)
  with Bip44Coin_presence [of heap_wallet "MetaRef 0" 0 0] show ?thesis by simp
qed

subsection \<open>Timestamp (C8, C9)\<close>

text \<open>
  C8 as stated: after \<open>SetTimestamp(t)\<close>, \<open>Find("timestamp")\<close> returns the decimal
  string of \<open>t\<close>. It fails on an empty record with \<open>t = 5\<close>: the call returns, and
  \<open>Find("timestamp")\<close> is the empty string, not \<open>"5"\<close>.
\<close>

theorem timestamp_key_counterexample:
  "SetTimestamp heap_empty (MetaRef 0) 5 \<noteq> Inl NilMapAssign \<and>
   Find (projr (SetTimestamp heap_empty (MetaRef 0) 5)) (MetaRef 0) ''timestamp'' = '''' \<and>
   FormatInt (sint (5 :: 64 word)) = ''5'' \<and>
   Find (projr (SetTimestamp heap_empty (MetaRef 0) 5)) (MetaRef 0) ''timestamp'' \<noteq>
     FormatInt (sint (5 :: 64 word))"
  by (simp add: SetTimestamp_def mapassign_ref Find_def mapaccess1_def mapaccess2_ref
      heap_empty_def MetaTimestamp_def FormatInt_def formatBits.simps digits_def)

text \<open>
  C8 amended: the creation timestamp is stored under the key \<open>tm\<close>. For every int64
  \<open>t\<close>, \<open>SetTimestamp(t)\<close> on a record returns, and afterwards \<open>Find("tm")\<close> is the
  decimal string of \<open>t\<close>, which \<open>Timestamp()\<close> reads back as \<open>t\<close>.
\<close>

theorem SetTimestamp_stored_under_tm:
  "\<exists>h1. SetTimestamp h (MetaRef a) t = Inr h1 \<and>
        Find h1 (MetaRef a) ''tm'' = FormatInt (sint t) \<and>
        Timestamp h1 (MetaRef a) = t"
proof -
  have lo: "- (2 ^ 63) \<le> sint t" using sint_ge [of t] by simp
  have hi: "sint t < 2 ^ 63" using sint_lt [of t] by simp
  have "ParseInt (FormatInt (sint t)) 64 = (sint t, None)"
    by (rule ParseInt_FormatInt [OF lo hi])
  then show ?thesis
    by (simp add: SetTimestamp_def Timestamp_def Find_def mapassign_ref mapaccess1_def
        mapaccess2_ref update_conv' MetaTimestamp_def)
qed

theorem SetTimestamp_stored_under_tm_witness:
  "\<exists>h1. SetTimestamp heap_empty (MetaRef 0) (- 15) = Inr h1 \<and>
        Find h1 (MetaRef 0) ''tm'' = ''-15'' \<and>
        Timestamp h1 (MetaRef 0) = - 15"
proof -
  have "FormatInt (sint (- 15 :: 64 word)) = ''-15''"
    by (simp add: FormatInt_def formatBits.simps digits_def)
  with SetTimestamp_stored_under_tm [of heap_empty 0 "- 15"] show ?thesis by simp
qed

text \<open>
  C9. \<open>Timestamp()\<close> is lenient where the \<open>tm\<close> key is absent or holds a string that
  is not a number: it returns 0.
\<close>

lemma Timestamp_absent: "snd (mapaccess2 h m MetaTimestamp) = False \<Longrightarrow> Timestamp h m = 0"
  by (cases m)
    (auto simp add: Timestamp_def mapaccess1_def mapaccess2_def ParseInt_empty
      split: option.splits)

lemma Timestamp_syntax_error:
  "snd (ParseInt (mapaccess1 h m MetaTimestamp) 64) = Some ErrSyntax \<Longrightarrow> Timestamp h m = 0"
  by (simp add: Timestamp_def ParseInt_syntax_zero)

text \<open>
  C9 at a value out of range: the record holds \<open>tm = "9223372036854775808"\<close>, which
  is \<open>2\<^sup>6\<^sup>3\<close> and does not parse as an int64. \<open>ParseInt\<close> reports the range error
  together with the largest int64; \<open>Timestamp()\<close> drops the error and returns that
  value, not 0.
\<close>

theorem Timestamp_out_of_range:
  "snd (ParseInt ''9223372036854775808'' 64) = Some ErrRange \<and>
   Timestamp heap_late (MetaRef 0) = 9223372036854775807"
proof -
  have digits: "formatBits 9223372036854775808 = ''9223372036854775808''"
    by (simp add: formatBits.simps digits_def)
  have "ParseUint (FormatUint 9223372036854775808) 64 = (9223372036854775808, None)"
    by (rule ParseUint_FormatUint) simp_all
  with digits have "ParseUint ''9223372036854775808'' 64 = (9223372036854775808, None)"
    by (simp add: FormatUint_def)
  then have "ParseInt ''9223372036854775808'' 64 = (9223372036854775807, Some ErrRange)"
    by (simp add: ParseInt_def Let_def)
  then show ?thesis
    by (simp add: Timestamp_def mapaccess1_def mapaccess2_ref heap_late_def MetaTimestamp_def)
qed

subsection \<open>Clone (C4)\<close>

text \<open>A mutation through a reference replaces the object at that address and nothing else.\<close>

lemma mutate_ref:
  "\<exists>obj. mutate h (MetaRef a) c = Inr (h\<lparr>objs := (objs h)(a := obj)\<rparr>)"
  by (cases c;
    simp add: SetVersion_def SetFilename_def SetLabel_def SetLastSeed_def SetSeed_def
      SetSeedPassphrase_def SetCoin_def SetBip44Coin_def SetTimestamp_def SetXPub_def
      EraseSeeds_def SetEncrypted_def SetDecrypted_def setCryptoType_def setSecrets_def
      setIsEncrypted_def mapdelete_def mapassign_ref seq_Inr;
    blast)

lemma mutate_all_ref:
  "\<exists>obj. mutate_all h (MetaRef a) cs = Inr (h\<lparr>objs := (objs h)(a := obj)\<rparr>)"
proof (induction cs arbitrary: h)
  case Nil
  have "h = h\<lparr>objs := (objs h)(a := objs h a)\<rparr>" by simp
  then show ?case by (metis mutate_all.simps(1))
next
  case (Cons c cs)
  obtain o1 where c: "mutate h (MetaRef a) c = Inr (h\<lparr>objs := (objs h)(a := o1)\<rparr>)"
    using mutate_ref by blast
  obtain o2 where cs: "mutate_all (h\<lparr>objs := (objs h)(a := o1)\<rparr>) (MetaRef a) cs =
      Inr (h\<lparr>objs := (objs h)(a := o1)\<rparr>\<lparr>objs := (objs (h\<lparr>objs := (objs h)(a := o1)\<rparr>))(a := o2)\<rparr>)"
    using Cons.IH by blast
  have "mutate_all h (MetaRef a) (c # cs) = Inr (h\<lparr>objs := (objs h)(a := o2)\<rparr>)"
    using c cs by simp
  then show ?case by blast
qed

text \<open>So a sequence of mutations of one record returns and leaves every other record as it was.\<close>

lemma mutate_all_frame:
  assumes "b \<noteq> a"
  shows "\<exists>h'. mutate_all h (MetaRef a) cs = Inr h' \<and>
              (\<forall>k. mapaccess2 h' (MetaRef b) k = mapaccess2 h (MetaRef b) k)"
proof -
  obtain obj where "mutate_all h (MetaRef a) cs = Inr (h\<lparr>objs := (objs h)(a := obj)\<rparr>)"
    using mutate_all_ref by blast
  with assms show ?thesis by (simp add: mapaccess2_ref)
qed

text \<open>The copying loop, as a fold of assignments into the new object.\<close>

lemma Clone_loop_ref:
  "Clone_loop es h (MetaRef b) =
     Inr (h\<lparr>objs := (objs h)(b := fold (\<lambda>(k, v). AList.update k v) es (objs h b))\<rparr>)"
  by (induction es arbitrary: h) (auto simp add: mapassign_ref)

lemma map_of_fold_update:
  "distinct (map fst es) \<Longrightarrow>
   map_of (fold (\<lambda>(k, v). AList.update k v) es al) k =
     (case map_of es k of None \<Rightarrow> map_of al k | Some v \<Rightarrow> Some v)"
proof (induction es arbitrary: al)
  case Nil
  show ?case by simp
next
  case (Cons e es)
  obtain k0 v0 where e: "e = (k0, v0)" by (cases e)
  from Cons.prems e have dist: "distinct (map fst es)" and fresh: "map_of es k0 = None"
    by (auto simp add: map_of_eq_None_iff)
  show ?case
    using Cons.IH [OF dist, of "AList.update k0 v0 al"] fresh e
    by (auto simp add: update_conv' split: option.splits)
qed

lemma map_of_copied:
  "map_of (fold (\<lambda>(k, v). AList.update k v) (AList.clearjunk al) []) k = map_of al k"
  using map_of_fold_update [OF distinct_clearjunk, of al "[]" k]
  by (simp add: map_of_clearjunk split: option.splits)

text \<open>
  The order in which \<open>range\<close> yields the entries does not matter: any list of the same
  entries gives the same copy.
\<close>

lemma copy_order_irrelevant:
  assumes "set es = set (AList.clearjunk al)" and "distinct (map fst es)"
  shows "map_of (fold (\<lambda>(k, v). AList.update k v) es []) k = map_of al k"
proof -
  have "map_of es = map_of (AList.clearjunk al)"
    using assms distinct_clearjunk [of al] by (simp add: map_of_inject_set)
  then show ?thesis
    using map_of_fold_update [OF assms(2), of "[]" k]
    by (simp add: map_of_clearjunk split: option.splits)
qed

lemma Clone_ref:
  "Clone h m =
     Inr (h\<lparr>objs := (objs h)(next_ref h :=
              fold (\<lambda>(k, v). AList.update k v) (maprange (fst (makemap h)) m) []),
            next_ref := Suc (next_ref h)\<rparr>,
          MetaRef (next_ref h))"
  by (simp add: Clone_def makemap_def Clone_loop_ref)

lemma maprange_makemap:
  "a < next_ref h \<Longrightarrow> maprange (fst (makemap h)) (MetaRef a) = AList.clearjunk (objs h a)"
  by (simp add: maprange_def makemap_def)

text \<open>The clone of a nil record is a new, empty record.\<close>

lemma Clone_nil:
  "\<exists>h1. Clone h NilMeta = Inr (h1, MetaRef (next_ref h)) \<and>
        (\<forall>k. mapaccess2 h1 (MetaRef (next_ref h)) k = ('''', False))"
  by (simp add: Clone_ref maprange_def mapaccess2_ref)

text \<open>Every read accessor is a function of the values and presence flags of the keys.\<close>

lemma accessors_determined:
  assumes "\<forall>k. mapaccess2 h' m' k = mapaccess2 h m k"
  shows "Find h' m' k = Find h m k"
    and "Type h' m' = Type h m"
    and "Version h' m' = Version h m"
    and "Filename h' m' = Filename h m"
    and "Label h' m' = Label h m"
    and "LastSeed h' m' = LastSeed h m"
    and "Seed h' m' = Seed h m"
    and "SeedPassphrase h' m' = SeedPassphrase h m"
    and "Coin h' m' = Coin h m"
    and "Bip44Coin h' m' = Bip44Coin h m"
    and "IsEncrypted h' m' = IsEncrypted h m"
    and "CryptoType h' m' = CryptoType h m"
    and "Secrets h' m' = Secrets h m"
    and "Timestamp h' m' = Timestamp h m"
    and "XPub h' m' = XPub h m"
  using assms
  by (simp_all add: Find_def Type_def Version_def Filename_def Label_def LastSeed_def Seed_def
      SeedPassphrase_def Coin_def Bip44Coin_def IsEncrypted_def CryptoType_def Secrets_def
      Timestamp_def XPub_def mapaccess1_def)

text \<open>
  C4. Clone independence: for every record \<open>R\<close> of the store, \<open>R.Clone()\<close> returns a
  record that has, at that moment, the same value and presence flag as \<open>R\<close> under every
  key, and \<open>R\<close> itself is unchanged by the call. Afterwards every sequence of mutations
  of \<open>R\<close> returns and leaves every key of the clone as it was, and every sequence of
  mutations of the clone returns and leaves every key of \<open>R\<close> as it was.
\<close>

theorem Clone_independence:
  assumes "a < next_ref h"
  shows "\<exists>h1 c.
     Clone h (MetaRef a) = Inr (h1, c) \<and>
     (\<forall>k. mapaccess2 h1 c k = mapaccess2 h (MetaRef a) k) \<and>
     (\<forall>k. mapaccess2 h1 (MetaRef a) k = mapaccess2 h (MetaRef a) k) \<and>
     (\<forall>cs. \<exists>h2. mutate_all h1 (MetaRef a) cs = Inr h2 \<and>
                 (\<forall>k. mapaccess2 h2 c k = mapaccess2 h1 c k)) \<and>
     (\<forall>cs. \<exists>h2. mutate_all h1 c cs = Inr h2 \<and>
                 (\<forall>k. mapaccess2 h2 (MetaRef a) k = mapaccess2 h1 (MetaRef a) k))"
proof -
  define n where "n = next_ref h"
  define h1 where "h1 = h\<lparr>objs := (objs h)(n :=
      fold (\<lambda>(k, v). AList.update k v) (AList.clearjunk (objs h a)) []),
      next_ref := Suc n\<rparr>"
  from assms have neq: "a \<noteq> n" "n \<noteq> a" by (simp_all add: n_def)
  have clone: "Clone h (MetaRef a) = Inr (h1, MetaRef n)"
    by (simp add: Clone_ref maprange_makemap [OF assms] h1_def n_def)
  have same: "\<forall>k. mapaccess2 h1 (MetaRef n) k = mapaccess2 h (MetaRef a) k"
    by (simp add: h1_def mapaccess2_ref map_of_copied)
  have kept: "\<forall>k. mapaccess2 h1 (MetaRef a) k = mapaccess2 h (MetaRef a) k"
    using neq by (simp add: h1_def mapaccess2_ref)
  have orig: "\<forall>cs. \<exists>h2. mutate_all h1 (MetaRef a) cs = Inr h2 \<and>
                 (\<forall>k. mapaccess2 h2 (MetaRef n) k = mapaccess2 h1 (MetaRef n) k)"
    using mutate_all_frame [OF neq(2)] by blast
  have copy: "\<forall>cs. \<exists>h2. mutate_all h1 (MetaRef n) cs = Inr h2 \<and>
                 (\<forall>k. mapaccess2 h2 (MetaRef a) k = mapaccess2 h1 (MetaRef a) k)"
    using mutate_all_frame [OF neq(1)] by blast
  from clone same kept orig copy show ?thesis by blast
qed

theorem Clone_independence_witness:
  "0 < next_ref heap_wallet \<and>
   (\<exists>h1 c.
      Clone heap_wallet (MetaRef 0) = Inr (h1, c) \<and>
      mapaccess2 h1 c MetaSeed = (''abandon'', True) \<and>
      mapaccess2 h1 c MetaLabel = ('''', False) \<and>
      (\<exists>h2. mutate_all h1 (MetaRef 0) [CallEraseSeeds, CallSetLabel ''mine''] = Inr h2 \<and>
            mapaccess2 h2 c MetaSeed = (''abandon'', True) \<and>
            mapaccess2 h2 c MetaLabel = ('''', False)) \<and>
      (\<exists>h2. mutate_all h1 c [CallEraseSeeds, CallSetLabel ''copy''] = Inr h2 \<and>
            mapaccess2 h2 (MetaRef 0) MetaSeed = (''abandon'', True) \<and>
            mapaccess2 h2 (MetaRef 0) MetaLabel = ('''', False)))"
proof -
  have alloc: "0 < next_ref heap_wallet"
    by (simp add: heap_wallet_def)
  have seed: "mapaccess2 heap_wallet (MetaRef 0) MetaSeed = (''abandon'', True)"
    by (simp add: mapaccess2_ref heap_wallet_def Meta_keys)
  have label: "mapaccess2 heap_wallet (MetaRef 0) MetaLabel = ('''', False)"
    by (simp add: mapaccess2_ref heap_wallet_def Meta_keys)
  from Clone_independence [OF alloc] obtain h1 c where
    clone: "Clone heap_wallet (MetaRef 0) = Inr (h1, c)" and
    same: "\<forall>k. mapaccess2 h1 c k = mapaccess2 heap_wallet (MetaRef 0) k" and
    kept: "\<forall>k. mapaccess2 h1 (MetaRef 0) k = mapaccess2 heap_wallet (MetaRef 0) k" and
    orig: "\<forall>cs. \<exists>h2. mutate_all h1 (MetaRef 0) cs = Inr h2 \<and>
                 (\<forall>k. mapaccess2 h2 c k = mapaccess2 h1 c k)" and
    copy: "\<forall>cs. \<exists>h2. mutate_all h1 c cs = Inr h2 \<and>
                 (\<forall>k. mapaccess2 h2 (MetaRef 0) k = mapaccess2 h1 (MetaRef 0) k)"
    by blast
  from orig obtain h2 where
    h2: "mutate_all h1 (MetaRef 0) [CallEraseSeeds, CallSetLabel ''mine''] = Inr h2"
      "\<forall>k. mapaccess2 h2 c k = mapaccess2 h1 c k"
    by blast
  from copy obtain h3 where
    h3: "mutate_all h1 c [CallEraseSeeds, CallSetLabel ''copy''] = Inr h3"
      "\<forall>k. mapaccess2 h3 (MetaRef 0) k = mapaccess2 h1 (MetaRef 0) k"
    by blast
  have "mapaccess2 h1 c MetaSeed = (''abandon'', True)"
       "mapaccess2 h1 c MetaLabel = ('''', False)"
       "mapaccess2 h2 c MetaSeed = (''abandon'', True)"
       "mapaccess2 h2 c MetaLabel = ('''', False)"
       "mapaccess2 h3 (MetaRef 0) MetaSeed = (''abandon'', True)"
       "mapaccess2 h3 (MetaRef 0) MetaLabel = ('''', False)"
    using same kept h2(2) h3(2) seed label by simp_all
  with alloc clone h2(1) h3(1) show ?thesis by simp
qed

end
